theory Spec2Isabelle
  imports Complex_Main
begin

section \<open>Numbers\<close>

text \<open>
  The Python code computes with floats. The model computes with exact reals and keeps
  the three special values a float can take, because the code's control flow depends
  on them: a comparison with NaN is false, a numpy division by zero gives an infinity
  or NaN instead of raising, and \<open>int()\<close> of a special value raises. Rounding
  and the sign of zero are not modelled.
\<close>

datatype xreal = Fin real | PInf | MInf | NaN

datatype py_error = IndexError | KeyError | ValueError | OverflowError

fun xneg :: "xreal \<Rightarrow> xreal" where
  "xneg (Fin a) = Fin (- a)"
| "xneg PInf = MInf"
| "xneg MInf = PInf"
| "xneg NaN = NaN"

fun xadd :: "xreal \<Rightarrow> xreal \<Rightarrow> xreal" where
  "xadd (Fin a) (Fin b) = Fin (a + b)"
| "xadd NaN _ = NaN"
| "xadd _ NaN = NaN"
| "xadd PInf MInf = NaN"
| "xadd MInf PInf = NaN"
| "xadd PInf _ = PInf"
| "xadd _ PInf = PInf"
| "xadd MInf _ = MInf"
| "xadd _ MInf = MInf"

definition xsub :: "xreal \<Rightarrow> xreal \<Rightarrow> xreal" where
  "xsub a b = xadd a (xneg b)"

fun xis_zero :: "xreal \<Rightarrow> bool" where
  "xis_zero (Fin a) = (a = 0)"
| "xis_zero _ = False"

fun xpos :: "xreal \<Rightarrow> bool" where
  "xpos (Fin a) = (0 < a)"
| "xpos PInf = True"
| "xpos _ = False"

fun xmul :: "xreal \<Rightarrow> xreal \<Rightarrow> xreal" where
  "xmul (Fin a) (Fin b) = Fin (a * b)"
| "xmul NaN _ = NaN"
| "xmul _ NaN = NaN"
| "xmul a b = (if xis_zero a \<or> xis_zero b then NaN
               else if xpos a = xpos b then PInf else MInf)"

text \<open>Float division as numpy does it: a zero divisor gives an infinity or NaN.\<close>

fun xdiv :: "xreal \<Rightarrow> xreal \<Rightarrow> xreal" where
  "xdiv (Fin a) (Fin b) =
     (if b \<noteq> 0 then Fin (a / b)
      else if 0 < a then PInf else if a < 0 then MInf else NaN)"
| "xdiv NaN _ = NaN"
| "xdiv _ NaN = NaN"
| "xdiv (Fin a) _ = Fin 0"
| "xdiv PInf (Fin b) = (if 0 \<le> b then PInf else MInf)"
| "xdiv MInf (Fin b) = (if 0 \<le> b then MInf else PInf)"
| "xdiv _ _ = NaN"

fun xsqrt :: "xreal \<Rightarrow> xreal" where
  "xsqrt (Fin a) = (if 0 \<le> a then Fin (sqrt a) else NaN)"
| "xsqrt PInf = PInf"
| "xsqrt _ = NaN"

fun xlt :: "xreal \<Rightarrow> xreal \<Rightarrow> bool" where
  "xlt (Fin a) (Fin b) = (a < b)"
| "xlt NaN _ = False"
| "xlt _ NaN = False"
| "xlt _ MInf = False"
| "xlt PInf _ = False"
| "xlt _ _ = True"

definition xgt :: "xreal \<Rightarrow> xreal \<Rightarrow> bool" where
  "xgt a b = xlt b a"

fun xle :: "xreal \<Rightarrow> xreal \<Rightarrow> bool" where
  "xle NaN _ = False"
| "xle _ NaN = False"
| "xle a b = (a = b \<or> xlt a b)"

definition xge :: "xreal \<Rightarrow> xreal \<Rightarrow> bool" where
  "xge a b = xle b a"

text \<open>Python's \<open>!=\<close>: true as soon as one side is NaN.\<close>

fun xne :: "xreal \<Rightarrow> xreal \<Rightarrow> bool" where
  "xne NaN _ = True"
| "xne _ NaN = True"
| "xne a b = (a \<noteq> b)"

text \<open>Python's \<open>int(x)\<close> on a float truncates towards zero.\<close>

definition trunc :: "real \<Rightarrow> int" where
  "trunc x = (if 0 \<le> x then \<lfloor>x\<rfloor> else \<lceil>x\<rceil>)"

fun py_int :: "xreal \<Rightarrow> py_error + int" where
  "py_int (Fin a) = Inr (trunc a)"
| "py_int NaN = Inl ValueError"
| "py_int _ = Inl OverflowError"

text \<open>\<open>d.get(key, default)\<close> on a dictionary whose key may be absent.\<close>

definition get_or :: "'a option \<Rightarrow> 'a \<Rightarrow> 'a" where
  "get_or v d = (case v of None \<Rightarrow> d | Some x \<Rightarrow> x)"

section \<open>Backtesting engine\<close>

datatype action = BUY | SELL | HOLD

text \<open>
  The strategy parameter dictionary and the backtest configuration dictionary; every
  key is read with a default. The frame is represented by its Close column, a list of
  finite prices; the date of bar \<open>i\<close> is its index.
\<close>

record strategy_params =
  sp_type :: "string option"
  short_window :: "nat option"
  long_window :: "nat option"
  period :: "nat option"
  oversold :: "real option"
  overbought :: "real option"
  fast_period :: "nat option"
  slow_period :: "nat option"
  signal_period :: "nat option"

record backtest_config =
  initial_capital :: "real option"
  position_size :: "real option"
  commission :: "real option"

text \<open>
  \<open>xs.rolling(window=w).mean()\<close> at position \<open>j\<close>: NaN until \<open>w\<close> values
  are available (and everywhere for an empty window).
\<close>

definition rolling_mean :: "nat \<Rightarrow> real list \<Rightarrow> nat \<Rightarrow> xreal" where
  "rolling_mean w xs j =
     (if w = 0 \<or> j + 1 < w \<or> length xs \<le> j then NaN
      else Fin (sum_list (take w (drop (j + 1 - w) xs)) / real w))"

text \<open>\<open>xs.diff()\<close>: the first entry is NaN (here \<open>None\<close>).\<close>

definition series_diff :: "real list \<Rightarrow> real option list" where
  "series_diff xs =
     (case xs of [] \<Rightarrow> [] | _ # t \<Rightarrow> None # map2 (\<lambda>a b. Some (b - a)) xs t)"

text \<open>\<open>delta.where(delta > 0, 0)\<close> and \<open>-delta.where(delta < 0, 0)\<close>.\<close>

definition gain_series :: "real option list \<Rightarrow> real list" where
  "gain_series delta =
     map (\<lambda>d. case d of Some v \<Rightarrow> if 0 < v then v else 0 | None \<Rightarrow> 0) delta"

definition loss_series :: "real option list \<Rightarrow> real list" where
  "loss_series delta =
     map (\<lambda>d. - (case d of Some v \<Rightarrow> if v < 0 then v else 0 | None \<Rightarrow> 0)) delta"

text \<open>
  \<open>xs.ewm(span=s, adjust=False).mean()\<close>: \<open>y\<^sub>0 = x\<^sub>0\<close> and
  \<open>y\<^sub>t = (1 - \<alpha>) y\<^sub>t\<^sub>-\<^sub>1 + \<alpha> x\<^sub>t\<close> with \<open>\<alpha> = 2 / (s + 1)\<close>;
  pandas raises ValueError for a span below 1.
\<close>

fun ewm_from :: "real \<Rightarrow> real \<Rightarrow> real list \<Rightarrow> real list" where
  "ewm_from \<alpha> y [] = []"
| "ewm_from \<alpha> y (x # xs) = ((1 - \<alpha>) * y + \<alpha> * x) # ewm_from \<alpha> ((1 - \<alpha>) * y + \<alpha> * x) xs"

definition ewm_mean :: "nat \<Rightarrow> real list \<Rightarrow> py_error + real list" where
  "ewm_mean spn xs =
     (if spn < 1 then Inl ValueError
      else Inr (case xs of [] \<Rightarrow> [] | x # t \<Rightarrow> x # ewm_from (2 / (real spn + 1)) x t))"

definition ma_crossover_signal :: "real list \<Rightarrow> strategy_params \<Rightarrow> action" where
  "ma_crossover_signal df params =
     (let sw = get_or (short_window params) 20;
          lw = get_or (long_window params) 50;
          n = length df
      in if n < lw then HOLD
         else let s1 = rolling_mean sw df (n - 1); l1 = rolling_mean lw df (n - 1);
                  s2 = rolling_mean sw df (n - 2); l2 = rolling_mean lw df (n - 2)
              in if xgt s1 l1 \<and> xle s2 l2 then BUY
                 else if xlt s1 l1 \<and> xge s2 l2 then SELL
                 else HOLD)"

definition rsi_signal :: "real list \<Rightarrow> strategy_params \<Rightarrow> action" where
  "rsi_signal df params =
     (let p = get_or (period params) 14;
          os = get_or (oversold params) 30;
          ob = get_or (overbought params) 70;
          n = length df
      in if n < p then HOLD
         else let delta = series_diff df;
                  avg_gain = rolling_mean p (gain_series delta) (n - 1);
                  avg_loss = rolling_mean p (loss_series delta) (n - 1);
                  rs = xdiv avg_gain avg_loss;
                  rsi = xsub (Fin 100) (xdiv (Fin 100) (xadd (Fin 1) rs))
              in if xlt rsi (Fin os) then BUY
                 else if xgt rsi (Fin ob) then SELL
                 else HOLD)"

definition macd_signal :: "real list \<Rightarrow> strategy_params \<Rightarrow> py_error + action" where
  "macd_signal df params =
     (let fp = get_or (fast_period params) 12;
          sl = get_or (slow_period params) 26;
          sg = get_or (signal_period params) 9;
          n = length df
      in if n < sl + sg then Inr HOLD
         else case ewm_mean fp df of Inl e \<Rightarrow> Inl e | Inr ema_fast \<Rightarrow>
              (case ewm_mean sl df of Inl e \<Rightarrow> Inl e | Inr ema_slow \<Rightarrow>
               (let macd = map2 (\<lambda>a b. a - b) ema_fast ema_slow
                in case ewm_mean sg macd of Inl e \<Rightarrow> Inl e | Inr msig \<Rightarrow>
                   Inr (if macd ! (n - 1) > msig ! (n - 1) \<and> macd ! (n - 2) \<le> msig ! (n - 2)
                        then BUY
                        else if macd ! (n - 1) < msig ! (n - 1) \<and> macd ! (n - 2) \<ge> msig ! (n - 2)
                        then SELL
                        else HOLD))))"

text \<open>
  \<open>BacktestingEngine._generate_signal\<close>, on the expanding window \<open>df\<close>. The
  first test returns HOLD for every window shorter than 50 bars, whatever the strategy.
\<close>

definition bt_generate_signal ::
  "real list \<Rightarrow> string \<Rightarrow> strategy_params \<Rightarrow> py_error + action" where
  "bt_generate_signal df strategy_type params =
     (if length df < 50 then Inr HOLD
      else if strategy_type = ''ma_crossover'' then Inr (ma_crossover_signal df params)
      else if strategy_type = ''rsi'' then Inr (rsi_signal df params)
      else if strategy_type = ''macd'' then macd_signal df params
      else Inr HOLD)"

text \<open>
  The simulation state of \<open>run_backtest\<close>: the four local variables the loop
  mutates. A trade and an equity-curve entry are the dictionaries the loop appends.
\<close>

record trade =
  t_date :: nat
  t_type :: action
  t_price :: real
  t_shares :: int
  t_value :: real
  t_commission :: real

record history_entry =
  h_date :: nat
  h_value :: real
  h_cash :: real
  h_shares :: int
  h_price :: real

record bt_state =
  cash :: real
  shares :: int
  trades :: "trade list"
  portfolio_history :: "history_entry list"

text \<open>
  One iteration of the loop body after the signal is known: the equity-curve entry is
  appended first, from the state the bar starts with; then the signal is acted on.
  \<open>int((cash * position_size) / current_price)\<close> raises when the price is zero.
\<close>

definition bar_step ::
  "real \<Rightarrow> real \<Rightarrow> action \<Rightarrow> nat \<Rightarrow> real \<Rightarrow> bt_state \<Rightarrow> py_error + bt_state" where
  "bar_step psize comm signal i current_price s =
     (let portfolio_value = cash s + of_int (shares s) * current_price;
          hist = portfolio_history s @
                 [\<lparr>h_date = i, h_value = portfolio_value, h_cash = cash s,
                   h_shares = shares s, h_price = current_price\<rparr>]
      in if signal = BUY \<and> shares s = 0 \<and> cash s > current_price then
           (case py_int (xdiv (Fin (cash s * psize)) (Fin current_price)) of
              Inl e \<Rightarrow> Inl e
            | Inr max_shares \<Rightarrow>
                if max_shares > 0 then
                  Inr \<lparr>cash = cash s - (of_int max_shares * current_price + comm),
                       shares = max_shares,
                       trades = trades s @
                         [\<lparr>t_date = i, t_type = BUY, t_price = current_price,
                           t_shares = max_shares,
                           t_value = of_int max_shares * current_price,
                           t_commission = comm\<rparr>],
                       portfolio_history = hist\<rparr>
                else Inr (s\<lparr>portfolio_history := hist\<rparr>))
         else if signal = SELL \<and> shares s > 0 then
           Inr \<lparr>cash = cash s + (of_int (shares s) * current_price - comm),
                shares = 0,
                trades = trades s @
                  [\<lparr>t_date = i, t_type = SELL, t_price = current_price,
                    t_shares = shares s,
                    t_value = of_int (shares s) * current_price,
                    t_commission = comm\<rparr>],
                portfolio_history = hist\<rparr>
         else Inr (s\<lparr>portfolio_history := hist\<rparr>))"

text \<open>The loop \<open>for i in range(1, len(df))\<close>, over the list of bar indices.\<close>

fun run_bars ::
  "real list \<Rightarrow> string \<Rightarrow> strategy_params \<Rightarrow> real \<Rightarrow> real \<Rightarrow> nat list \<Rightarrow> bt_state
     \<Rightarrow> py_error + bt_state" where
  "run_bars df stype params psize comm [] s = Inr s"
| "run_bars df stype params psize comm (i # is) s =
     (case bt_generate_signal (take (i + 1) df) stype params of
        Inl e \<Rightarrow> Inl e
      | Inr signal \<Rightarrow>
          (case bar_step psize comm signal i (df ! i) s of
             Inl e \<Rightarrow> Inl e
           | Inr s' \<Rightarrow> run_bars df stype params psize comm is s'))"

subsection \<open>Performance report\<close>

definition np_mean :: "xreal list \<Rightarrow> xreal" where
  "np_mean xs = xdiv (foldl xadd (Fin 0) xs) (Fin (real (length xs)))"

definition np_std :: "xreal list \<Rightarrow> xreal" where
  "np_std xs =
     (let m = np_mean xs
      in xsqrt (np_mean (map (\<lambda>x. xmul (xsub x m) (xsub x m)) xs)))"

text \<open>Python's \<open>max(a, b)\<close> and \<open>min\<close> keep the first argument unless the next one
  compares strictly beyond it; \<open>max(xs, default=d)\<close> returns \<open>d\<close> on an empty list.\<close>

definition py_max_default :: "real list \<Rightarrow> real \<Rightarrow> real" where
  "py_max_default xs d = (case xs of [] \<Rightarrow> d | x # t \<Rightarrow> foldl max x t)"

definition py_min_default :: "real list \<Rightarrow> real \<Rightarrow> real" where
  "py_min_default xs d = (case xs of [] \<Rightarrow> d | x # t \<Rightarrow> foldl min x t)"

definition xmax :: "xreal \<Rightarrow> xreal \<Rightarrow> xreal" where
  "xmax a b = (if xgt b a then b else a)"

definition xmin :: "xreal \<Rightarrow> xreal \<Rightarrow> xreal" where
  "xmin a b = (if xlt b a then b else a)"

fun cumulative_from :: "xreal \<Rightarrow> xreal list \<Rightarrow> xreal list" where
  "cumulative_from c [] = [c]"
| "cumulative_from c (r # rs) = c # cumulative_from (xmul c (xadd (Fin 1) r)) rs"

fun running_max_from :: "xreal \<Rightarrow> xreal list \<Rightarrow> xreal list" where
  "running_max_from m [] = []"
| "running_max_from m (v # vs) = xmax m v # running_max_from (xmax m v) vs"

record backtest_result =
  r_initial_capital :: real
  final_value :: real
  total_return :: xreal
  total_trades :: nat
  winning_trades :: nat
  losing_trades :: nat
  avg_win :: real
  avg_loss :: real
  largest_win :: real
  largest_loss :: real
  sharpe_ratio :: xreal
  max_drawdown :: xreal
  volatility :: xreal
  r_trades :: "trade list"
  r_portfolio_history :: "history_entry list"

text \<open>The bar-over-bar returns of the equity curve.\<close>

definition history_returns :: "history_entry list \<Rightarrow> xreal list" where
  "history_returns ph =
     map2 (\<lambda>prev cur. xdiv (Fin (h_value cur - h_value prev)) (Fin (h_value prev)))
       ph (tl ph)"

text \<open>The loop that tallies the paired trades: (wins, losses, profit, loss).\<close>

definition tally :: "nat \<times> nat \<times> real \<times> real \<Rightarrow> real \<Rightarrow> nat \<times> nat \<times> real \<times> real" where
  "tally acc profit_loss =
     (case acc of (w, l, total_profit, total_loss) \<Rightarrow>
        if profit_loss > 0 then (w + 1, l, total_profit + profit_loss, total_loss)
        else (w, l + 1, total_profit, total_loss + \<bar>profit_loss\<bar>))"

definition calculate_backtest_metrics ::
  "real \<Rightarrow> real \<Rightarrow> trade list \<Rightarrow> history_entry list \<Rightarrow> backtest_result" where
  "calculate_backtest_metrics initial final trs ph =
     (let buy_trades = filter (\<lambda>t. t_type t = BUY) trs;
          sell_trades = filter (\<lambda>t. t_type t = SELL) trs;
          pls = map (\<lambda>(b, s). (t_price s - t_price b) * of_int (t_shares b))
                  (zip buy_trades sell_trades);
          acc = foldl tally (0, 0, 0, 0) pls;
          w = fst acc; l = fst (snd acc);
          total_profit = fst (snd (snd acc)); total_loss = snd (snd (snd acc));
          returns = history_returns ph;
          sd = np_std returns;
          cumulative = cumulative_from (Fin (h_value (hd ph))) returns;
          running_max = hd cumulative # running_max_from (hd cumulative) (tl cumulative);
          drawdowns = map2 (\<lambda>c m. xmul (xdiv (xsub c m) m) (Fin 100)) cumulative running_max
      in \<lparr>r_initial_capital = initial,
          final_value = final,
          total_return = xmul (xdiv (Fin (final - initial)) (Fin initial)) (Fin 100),
          total_trades = length trs,
          winning_trades = w,
          losing_trades = l,
          avg_win = (if w > 0 then total_profit / real w else 0),
          avg_loss = (if l > 0 then total_loss / real l else 0),
          largest_win = py_max_default (map abs pls) 0,
          largest_loss = py_min_default pls 0,
          sharpe_ratio =
            (if ph \<noteq> [] \<and> returns \<noteq> [] then
               (if xgt sd (Fin 0) then xmul (xdiv (np_mean returns) sd) (Fin (sqrt 252))
                else Fin 0)
             else Fin 0),
          max_drawdown =
            (if ph \<noteq> [] \<and> returns \<noteq> [] then foldl xmin (hd drawdowns) (tl drawdowns)
             else Fin 0),
          volatility =
            (if ph \<noteq> [] \<and> returns \<noteq> [] then xmul (xmul sd (Fin (sqrt 252))) (Fin 100)
             else Fin 0),
          r_trades = trs,
          r_portfolio_history = ph\<rparr>)"

text \<open>
  \<open>BacktestingEngine.run_backtest\<close>. After the loop, \<open>df['Close'].iloc[-1]\<close>
  raises IndexError on an empty frame.
\<close>

definition initial_state :: "real \<Rightarrow> bt_state" where
  "initial_state capital = \<lparr>cash = capital, shares = 0, trades = [], portfolio_history = []\<rparr>"

definition run_backtest ::
  "real list \<Rightarrow> strategy_params \<Rightarrow> backtest_config \<Rightarrow> py_error + backtest_result" where
  "run_backtest df params config =
     (let capital = get_or (initial_capital config) 10000;
          psize = get_or (position_size config) 1;
          comm = get_or (commission config) 1;
          stype = get_or (sp_type params) ''ma_crossover''
      in case run_bars df stype params psize comm [1..<length df] (initial_state capital) of
           Inl e \<Rightarrow> Inl e
         | Inr s \<Rightarrow>
             if df = [] then Inl IndexError
             else Inr (calculate_backtest_metrics capital
                         (cash s + of_int (shares s) * last df)
                         (trades s) (portfolio_history s)))"

subsection \<open>Concrete inputs\<close>

text \<open>
  Fifty bars falling from 50 to 1: under the RSI rule the relative strength index is 0
  at bar 49, the first bar whose window holds 50 bars.
\<close>

definition falling50 :: "real list" where
  "falling50 = map real (rev [1..<51])"

definition rsi_params :: strategy_params where
  "rsi_params = \<lparr>sp_type = Some ''rsi'', short_window = None, long_window = None,
     period = None, oversold = None, overbought = None, fast_period = None,
     slow_period = None, signal_period = None\<rparr>"

definition default_config :: backtest_config where
  "default_config = \<lparr>initial_capital = None, position_size = None, commission = None\<rparr>"

definition macd_params :: strategy_params where
  "macd_params = \<lparr>sp_type = Some ''macd'', short_window = None, long_window = None,
     period = None, oversold = None, overbought = None, fast_period = Some 12,
     slow_period = Some 26, signal_period = Some 9\<rparr>"







subsection \<open>The run as a transition system\<close>




section \<open>Position sizer\<close>



section \<open>Stop-loss validation\<close>





section \<open>Signal generator\<close>


definition and_then :: "'e + 'a \<Rightarrow> ('a \<Rightarrow> 'e + 'b) \<Rightarrow> 'e + 'b" where
  "and_then x f = (case x of Inl e \<Rightarrow> Inl e | Inr v \<Rightarrow> f v)"






























section \<open>Risk analyzer\<close>

text \<open>
  \<open>RiskAnalyzer._calculate_sharpe_ratio\<close> on the Close column (finite prices).
  \<open>pct_change()\<close> starts with NaN and divides by the previous close; \<open>dropna()\<close>
  removes the NaN entries. pandas' \<open>mean()\<close> of an empty series is NaN, and its
  \<open>std()\<close> is the sample deviation (divisor \<open>n - 1\<close>), NaN for fewer than two values.
\<close>

definition pct_change_series :: "real list \<Rightarrow> xreal list" where
  "pct_change_series xs =
     (case xs of [] \<Rightarrow> []
      | _ # t \<Rightarrow> NaN # map2 (\<lambda>a b. xsub (xdiv (Fin b) (Fin a)) (Fin 1)) xs t)"

definition dropna :: "xreal list \<Rightarrow> xreal list" where
  "dropna xs = filter (\<lambda>x. x \<noteq> NaN) xs"

definition pd_mean :: "xreal list \<Rightarrow> xreal" where
  "pd_mean xs =
     (if xs = [] then NaN else xdiv (foldl xadd (Fin 0) xs) (Fin (real (length xs))))"

definition pd_std :: "xreal list \<Rightarrow> xreal" where
  "pd_std xs =
     (if length xs \<le> 1 then NaN
      else let m = pd_mean xs
           in xsqrt (xdiv (foldl xadd (Fin 0) (map (\<lambda>x. xmul (xsub x m) (xsub x m)) xs))
                      (Fin (real (length xs - 1)))))"

definition calculate_sharpe_ratio :: "real list \<Rightarrow> real \<Rightarrow> xreal" where
  "calculate_sharpe_ratio closes risk_free_rate =
     (let returns = dropna (pct_change_series closes);
          excess_returns = xsub (xmul (pd_mean returns) (Fin 252)) (Fin risk_free_rate);
          volatility = xmul (pd_std returns) (Fin (sqrt 252))
      in if xne volatility (Fin 0) then xdiv excess_returns volatility else Fin 0)"

section \<open>Properties of the backtesting engine\<close>

subsection \<open>The loop\<close>

lemma run_bars_append:
  "run_bars df st ps z c (xs @ ys) s =
     (case run_bars df st ps z c xs s of Inl e \<Rightarrow> Inl e
      | Inr s' \<Rightarrow> run_bars df st ps z c ys s')"
  by (induction xs arbitrary: s) (auto split: sum.splits)

lemma bar_step_history:
  "bar_step z c sg i p s = Inr s' \<Longrightarrow>
     portfolio_history s' = portfolio_history s @
       [\<lparr>h_date = i, h_value = cash s + of_int (shares s) * p, h_cash = cash s,
         h_shares = shares s, h_price = p\<rparr>]"
  by (auto simp: bar_step_def Let_def split: if_splits sum.splits)

lemma bar_step_quiet:
  assumes "sg = HOLD \<or> (sg = SELL \<and> shares s = 0) \<or> (sg = BUY \<and> shares s \<noteq> 0)"
  shows "bar_step z c sg i p s =
     Inr (s\<lparr>portfolio_history := portfolio_history s @
       [\<lparr>h_date = i, h_value = cash s + of_int (shares s) * p, h_cash = cash s,
         h_shares = shares s, h_price = p\<rparr>]\<rparr>)"
  using assms by (auto simp: bar_step_def Let_def)

lemma bar_step_trades:
  "bar_step z c sg i p s = Inr s' \<Longrightarrow>
     trades s' = trades s \<or>
     (sg \<noteq> HOLD \<and> (\<exists>t. trades s' = trades s @ [t] \<and> t_date t = i))"
  by (auto simp: bar_step_def Let_def split: if_splits sum.splits)

lemma short_window_hold: "length df < 50 \<Longrightarrow> bt_generate_signal df st ps = Inr HOLD"
  by (simp add: bt_generate_signal_def)

lemma run_bars_trade_dates:
  "run_bars df st ps z c is s = Inr s' \<Longrightarrow> t \<in> set (trades s') \<Longrightarrow>
     t \<in> set (trades s) \<or> (t_date t \<in> set is \<and> 49 \<le> t_date t)"
proof (induction "is" arbitrary: s)
  case Nil
  then show ?case by simp
next
  case (Cons i "is")
  from Cons.prems(1) obtain sg s1 where
    sg: "bt_generate_signal (take (i + 1) df) st ps = Inr sg" and
    st: "bar_step z c sg i (df ! i) s = Inr s1" and
    rest: "run_bars df st ps z c is s1 = Inr s'"
    by (auto split: sum.splits)
  from Cons.IH [OF rest Cons.prems(2)]
  consider "t \<in> set (trades s1)" | "t_date t \<in> set is \<and> 49 \<le> t_date t" by blast
  then show ?case
  proof cases
    case 1
    from bar_step_trades [OF st] show ?thesis
    proof
      assume "trades s1 = trades s"
      with 1 show ?thesis by simp
    next
      assume a: "sg \<noteq> HOLD \<and> (\<exists>t. trades s1 = trades s @ [t] \<and> t_date t = i)"
      then have "\<not> length (take (i + 1) df) < 50"
        using sg short_window_hold [of "take (i + 1) df" st ps] by auto
      then have "49 \<le> i" by simp
      with a 1 show ?thesis by auto
    qed
  next
    case 2
    then show ?thesis by simp
  qed
qed

subsection \<open>The report keeps what the loop produced\<close>

lemma metrics_trades: "r_trades (calculate_backtest_metrics a b trs ph) = trs"
  by (simp add: calculate_backtest_metrics_def Let_def)

lemma metrics_history: "r_portfolio_history (calculate_backtest_metrics a b trs ph) = ph"
  by (simp add: calculate_backtest_metrics_def Let_def)

lemma metrics_final_value: "final_value (calculate_backtest_metrics a b trs ph) = b"
  by (simp add: calculate_backtest_metrics_def Let_def)

lemma metrics_total_trades: "total_trades (calculate_backtest_metrics a b trs ph) = length trs"
  by (simp add: calculate_backtest_metrics_def Let_def)

lemma run_backtest_Inr:
  assumes "run_backtest df params config = Inr r"
  obtains s where
    "run_bars df (get_or (sp_type params) ''ma_crossover'') params
       (get_or (position_size config) 1) (get_or (commission config) 1)
       [1..<length df] (initial_state (get_or (initial_capital config) 10000)) = Inr s"
    and "df \<noteq> []"
    and "r = calculate_backtest_metrics (get_or (initial_capital config) 10000)
               (cash s + of_int (shares s) * last df) (trades s) (portfolio_history s)"
  using assms by (auto simp: run_backtest_def Let_def split: sum.splits if_splits)

subsection \<open>No signal before fifty bars\<close>

text \<open>
  Claim C10. For every strategy type and every parameter record, the per-bar signal
  rule of the backtest returns HOLD on a window of fewer than 50 bars; hence every
  trade a backtest records is dated at bar index 49 or later.
\<close>

theorem early_bars_hold:
  "(length df < 50 \<longrightarrow> bt_generate_signal df stype params = Inr HOLD) \<and>
   (run_backtest full params config = Inr r \<longrightarrow> t \<in> set (r_trades r) \<longrightarrow> 49 \<le> t_date t)"
proof (intro conjI impI)
  assume "length df < 50"
  then show "bt_generate_signal df stype params = Inr HOLD" by (rule short_window_hold)
next
  assume run: "run_backtest full params config = Inr r" and t: "t \<in> set (r_trades r)"
  from run obtain s where
    bars: "run_bars full (get_or (sp_type params) ''ma_crossover'') params
       (get_or (position_size config) 1) (get_or (commission config) 1)
       [1..<length full] (initial_state (get_or (initial_capital config) 10000)) = Inr s"
    and r: "r = calculate_backtest_metrics (get_or (initial_capital config) 10000)
               (cash s + of_int (shares s) * last full) (trades s) (portfolio_history s)"
    by (rule run_backtest_Inr)
  from t r have "t \<in> set (trades s)" by (simp add: metrics_trades)
  from run_bars_trade_dates [OF bars this] show "49 \<le> t_date t"
    by (simp add: initial_state_def)
qed

lemma falling50_bars:
  "map_sum id (\<lambda>s. (cash s, shares s, trades s))
     (run_bars falling50 ''rsi'' rsi_params 1 1 [1..<50] (initial_state 10000)) =
   Inr (- 1, 10000, [\<lparr>t_date = 49, t_type = BUY, t_price = 1, t_shares = 10000,
                      t_value = 10000, t_commission = 1\<rparr>])"
  by code_simp

lemma falling50_run:
  "\<exists>r. run_backtest falling50 rsi_params default_config = Inr r \<and>
       r_trades r = [\<lparr>t_date = 49, t_type = BUY, t_price = 1, t_shares = 10000,
                       t_value = 10000, t_commission = 1\<rparr>]"
proof -
  from falling50_bars obtain s where
    s: "run_bars falling50 ''rsi'' rsi_params 1 1 [1..<50] (initial_state 10000) = Inr s"
    and tr: "trades s = [\<lparr>t_date = 49, t_type = BUY, t_price = 1, t_shares = 10000,
                          t_value = 10000, t_commission = 1\<rparr>]"
    by (cases "run_bars falling50 ''rsi'' rsi_params 1 1 [1..<50] (initial_state 10000)") auto
  have len: "length falling50 = 50" by (simp add: falling50_def)
  have ne: "falling50 \<noteq> []" using len by auto
  show ?thesis
    using s tr ne
    by (simp add: run_backtest_def Let_def get_or_def rsi_params_def default_config_def len
        metrics_trades)
qed

theorem early_bars_hold_witness:
  "length (replicate 30 (5::real)) < 50 \<and>
   bt_generate_signal (replicate 30 5) ''rsi'' rsi_params = Inr HOLD \<and>
   (\<exists>r t. run_backtest falling50 rsi_params default_config = Inr r \<and>
          t \<in> set (r_trades r) \<and> 49 \<le> t_date t)"
proof -
  from falling50_run obtain r where
    r: "run_backtest falling50 rsi_params default_config = Inr r" and
    tr: "r_trades r = [\<lparr>t_date = 49, t_type = BUY, t_price = 1, t_shares = 10000,
                        t_value = 10000, t_commission = 1\<rparr>]"
    by blast
  let ?t = "\<lparr>t_date = 49, t_type = BUY, t_price = 1, t_shares = 10000,
             t_value = 10000, t_commission = 1\<rparr>"
  have mem: "?t \<in> set (r_trades r)" by (simp add: tr)
  have short: "length (replicate 30 (5::real)) < 50" by simp
  from early_bars_hold [of "replicate 30 5" "''rsi''" rsi_params falling50 default_config r ?t]
  have "bt_generate_signal (replicate 30 5) ''rsi'' rsi_params = Inr HOLD" and "49 \<le> t_date ?t"
    using short r mem by blast+
  with short r mem show ?thesis by blast
qed

subsection \<open>Constant prices\<close>

lemma rolling_mean_const:
  "rolling_mean w (replicate m c) j = NaN \<or> rolling_mean w (replicate m c) j = Fin c"
proof (cases "w = 0 \<or> j + 1 < w \<or> m \<le> j")
  case True
  then show ?thesis by (auto simp: rolling_mean_def)
next
  case False
  then have "min w (m - (j + 1 - w)) = w" by auto
  then have "sum_list (take w (drop (j + 1 - w) (replicate m c))) = real w * c"
    by (simp add: sum_list_replicate)
  with False show ?thesis by (simp add: rolling_mean_def)
qed

lemma ma_const_hold: "ma_crossover_signal (replicate m c) params = HOLD"
proof -
  have a: "\<not> xgt x y" "\<not> xlt x y"
    if "x = NaN \<or> x = Fin c" "y = NaN \<or> y = Fin c" for x y
    using that by (auto simp: xgt_def)
  show ?thesis
    unfolding ma_crossover_signal_def Let_def
    using a rolling_mean_const by simp
qed

lemma series_diff_const:
  "series_diff (replicate m c) = (if m = 0 then [] else None # replicate (m - 1) (Some 0))"
proof (cases m)
  case 0
  then show ?thesis by (simp add: series_diff_def)
next
  case (Suc k)
  have "map2 (\<lambda>a b. Some (b - a)) (replicate (Suc k) c) (replicate k c) = replicate k (Some 0)"
    by (induction k) auto
  with Suc show ?thesis by (simp add: series_diff_def)
qed

lemma gain_const: "gain_series (series_diff (replicate m c)) = replicate m 0"
  unfolding series_diff_const by (cases m) (auto simp: gain_series_def)

lemma loss_const: "loss_series (series_diff (replicate m c)) = replicate m 0"
  unfolding series_diff_const by (cases m) (auto simp: loss_series_def)

lemma rsi_const_hold: "rsi_signal (replicate m c) params = HOLD"
proof -
  have d: "xdiv x y = NaN" if "x = NaN \<or> x = Fin 0" "y = NaN \<or> y = Fin 0" for x y
    using that by auto
  have "xdiv (rolling_mean w (replicate m 0) j) (rolling_mean w (replicate m 0) j) = NaN"
    for w j
    using d rolling_mean_const [of w m 0 j] by blast
  then show ?thesis
    unfolding rsi_signal_def Let_def
    by (simp add: gain_const loss_const xsub_def xgt_def)
qed

lemma ewm_from_const: "ewm_from \<alpha> c (replicate k c) = replicate k c"
  by (induction k) (auto simp: algebra_simps)

lemma ewm_mean_const: "1 \<le> spn \<Longrightarrow> ewm_mean spn (replicate m c) = Inr (replicate m c)"
  by (cases m) (auto simp: ewm_mean_def ewm_from_const)

lemma ewm_mean_cases: "ewm_mean spn xs = Inl ValueError \<or> (1 \<le> spn \<and> (\<exists>ys. ewm_mean spn xs = Inr ys))"
  by (auto simp: ewm_mean_def)

lemma map2_minus_const: "map2 (\<lambda>a b. a - b) (replicate m c) (replicate m (c::real)) = replicate m 0"
  by (induction m) auto

lemma macd_const:
  "macd_signal (replicate m c) params = Inr HOLD \<or>
   macd_signal (replicate m c) params = Inl ValueError"
proof -
  let ?fp = "get_or (fast_period params) 12"
  let ?sl = "get_or (slow_period params) 26"
  let ?sg = "get_or (signal_period params) 9"
  show ?thesis
  proof (cases "1 \<le> ?fp \<and> 1 \<le> ?sl \<and> 1 \<le> ?sg")
    case True
    then show ?thesis
      by (auto simp: macd_signal_def Let_def ewm_mean_const map2_minus_const)
  next
    case False
    then show ?thesis
      using ewm_mean_cases [of ?fp "replicate m c"] ewm_mean_cases [of ?sl "replicate m c"]
      by (auto simp: macd_signal_def Let_def ewm_mean_const map2_minus_const
          split: sum.splits) (auto simp: ewm_mean_def)
  qed
qed

lemma macd_const_valid:
  "1 \<le> get_or (fast_period params) 12 \<Longrightarrow> 1 \<le> get_or (slow_period params) 26 \<Longrightarrow>
   1 \<le> get_or (signal_period params) 9 \<Longrightarrow> macd_signal (replicate m c) params = Inr HOLD"
  by (auto simp: macd_signal_def Let_def ewm_mean_const map2_minus_const)

lemma const_signal:
  "bt_generate_signal (replicate m c) st params = Inr HOLD \<or>
   bt_generate_signal (replicate m c) st params = Inl ValueError"
  using macd_const [of m c params]
  by (auto simp: bt_generate_signal_def ma_const_hold rsi_const_hold)

lemma const_signal_valid:
  "(st = ''macd'' \<longrightarrow> 1 \<le> get_or (fast_period params) 12 \<and>
      1 \<le> get_or (slow_period params) 26 \<and> 1 \<le> get_or (signal_period params) 9) \<Longrightarrow>
   bt_generate_signal (replicate m c) st params = Inr HOLD"
  by (auto simp: bt_generate_signal_def ma_const_hold rsi_const_hold macd_const_valid)


lemma run_bars_quiet:
  assumes "\<forall>i\<in>set is. bt_generate_signal (take (i + 1) df) st ps = Inr HOLD \<or>
             (\<exists>e. bt_generate_signal (take (i + 1) df) st ps = Inl e)"
    and "run_bars df st ps z c is s = Inr s'"
  shows "cash s' = cash s \<and> shares s' = shares s \<and> trades s' = trades s \<and>
         portfolio_history s' = portfolio_history s @
           map (\<lambda>i. \<lparr>h_date = i, h_value = cash s + of_int (shares s) * df ! i,
                      h_cash = cash s, h_shares = shares s, h_price = df ! i\<rparr>) is"
  using assms
proof (induction "is" arbitrary: s)
  case Nil
  then show ?case by simp
next
  case (Cons i "is")
  from Cons.prems have sg: "bt_generate_signal (take (i + 1) df) st ps = Inr HOLD"
    by (auto split: sum.splits)
  let ?s1 = "s\<lparr>portfolio_history := portfolio_history s @
       [\<lparr>h_date = i, h_value = cash s + of_int (shares s) * df ! i, h_cash = cash s,
         h_shares = shares s, h_price = df ! i\<rparr>]\<rparr>"
  have st: "bar_step z c HOLD i (df ! i) s = Inr ?s1" by (simp add: bar_step_quiet)
  from Cons.prems(2) sg st have rest: "run_bars df st ps z c is ?s1 = Inr s'" by simp
  from Cons.prems(1) have "\<forall>i\<in>set is. bt_generate_signal (take (i + 1) df) st ps = Inr HOLD \<or>
             (\<exists>e. bt_generate_signal (take (i + 1) df) st ps = Inl e)" by simp
  from Cons.IH [OF this rest] show ?case by simp
qed

lemma run_bars_hold_total:
  assumes "\<forall>i\<in>set is. bt_generate_signal (take (i + 1) df) st ps = Inr HOLD"
  shows "\<exists>s'. run_bars df st ps z c is s = Inr s'"
  using assms
proof (induction "is" arbitrary: s)
  case Nil
  then show ?case by simp
next
  case (Cons i "is")
  then show ?case by (simp add: bar_step_quiet)
qed

text \<open>
  Claim C3. On a bar sequence whose Close price is constant, under every strategy type
  (in particular \<open>ma_crossover\<close>, \<open>rsi\<close> and \<open>macd\<close>) and every
  parameter record, a backtest that returns has an empty trade ledger, a cash balance
  equal to the initial capital at every bar (no commission is ever debited) and a final
  value equal to the initial capital. It does return on every non-empty sequence; the
  only requirement is the one pandas puts on the MACD spans (at least 1).
\<close>

theorem flat_backtest:
  assumes flat: "set df \<subseteq> {c}"
  shows "(run_backtest df params config = Inr r \<longrightarrow>
            r_trades r = [] \<and> total_trades r = 0 \<and>
            final_value r = get_or (initial_capital config) 10000 \<and>
            (\<forall>h\<in>set (r_portfolio_history r).
               h_cash h = get_or (initial_capital config) 10000 \<and> h_shares h = 0)) \<and>
         (df \<noteq> [] \<and>
          (get_or (sp_type params) ''ma_crossover'' = ''macd'' \<longrightarrow>
             1 \<le> get_or (fast_period params) 12 \<and> 1 \<le> get_or (slow_period params) 26 \<and>
             1 \<le> get_or (signal_period params) 9) \<longrightarrow>
          (\<exists>r'. run_backtest df params config = Inr r'))"
proof -
  let ?st = "get_or (sp_type params) ''ma_crossover''"
  let ?z = "get_or (position_size config) 1"
  let ?c = "get_or (commission config) 1"
  let ?cap = "get_or (initial_capital config) 10000"
  from flat have df: "df = replicate (length df) c"
    by (metis replicate_length_same singletonD subsetD)
  have win: "take (i + 1) df = replicate (min (i + 1) (length df)) c" for i
    by (subst df) (simp only: take_replicate)
  have first: "r_trades r = [] \<and> total_trades r = 0 \<and> final_value r = ?cap \<and>
            (\<forall>h\<in>set (r_portfolio_history r). h_cash h = ?cap \<and> h_shares h = 0)"
    if run: "run_backtest df params config = Inr r"
  proof -
    from run obtain s where
      bars: "run_bars df ?st params ?z ?c [1..<length df] (initial_state ?cap) = Inr s"
      and r: "r = calculate_backtest_metrics ?cap (cash s + of_int (shares s) * last df)
                    (trades s) (portfolio_history s)"
      by (rule run_backtest_Inr)
    have "\<forall>i\<in>set [1..<length df]. bt_generate_signal (take (i + 1) df) ?st params = Inr HOLD \<or>
             (\<exists>e. bt_generate_signal (take (i + 1) df) ?st params = Inl e)"
    proof
      fix i
      have "bt_generate_signal (take (i + 1) df) ?st params = Inr HOLD \<or>
            bt_generate_signal (take (i + 1) df) ?st params = Inl ValueError"
        unfolding win by (rule const_signal)
      then show "bt_generate_signal (take (i + 1) df) ?st params = Inr HOLD \<or>
             (\<exists>e. bt_generate_signal (take (i + 1) df) ?st params = Inl e)" by blast
    qed
    from run_bars_quiet [OF this bars] show ?thesis
      by (auto simp: r metrics_trades metrics_total_trades metrics_final_value
          metrics_history initial_state_def)
  qed
  have second: "\<exists>r'. run_backtest df params config = Inr r'"
    if ne: "df \<noteq> []" and ok: "?st = ''macd'' \<longrightarrow>
             1 \<le> get_or (fast_period params) 12 \<and> 1 \<le> get_or (slow_period params) 26 \<and>
             1 \<le> get_or (signal_period params) 9"
  proof -
    have "\<forall>i\<in>set [1..<length df]. bt_generate_signal (take (i + 1) df) ?st params = Inr HOLD"
    proof
      fix i
      show "bt_generate_signal (take (i + 1) df) ?st params = Inr HOLD"
        unfolding win using ok by (rule const_signal_valid)
    qed
    from run_bars_hold_total [OF this] obtain s where
      "run_bars df ?st params ?z ?c [1..<length df] (initial_state ?cap) = Inr s" by blast
    with ne show ?thesis by (simp add: run_backtest_def Let_def)
  qed
  from first second show ?thesis by blast
qed

theorem flat_backtest_witness:
  "set (replicate 60 (100::real)) \<subseteq> {100} \<and> replicate 60 (100::real) \<noteq> [] \<and>
   (\<exists>r. run_backtest (replicate 60 100) macd_params default_config = Inr r \<and>
        r_trades r = [] \<and> total_trades r = 0 \<and> final_value r = 10000)"
proof -
  have flat: "set (replicate 60 (100::real)) \<subseteq> {100}" by simp
  have ne: "replicate 60 (100::real) \<noteq> []" by simp
  have ok: "get_or (sp_type macd_params) ''ma_crossover'' = ''macd'' \<longrightarrow>
             1 \<le> get_or (fast_period macd_params) 12 \<and> 1 \<le> get_or (slow_period macd_params) 26 \<and>
             1 \<le> get_or (signal_period macd_params) 9"
    by (simp add: macd_params_def get_or_def)
  have cap: "get_or (initial_capital default_config) 10000 = 10000"
    by (simp add: default_config_def get_or_def)
  from flat_backtest [OF flat, of macd_params default_config] ne ok
  obtain r where r: "run_backtest (replicate 60 100) macd_params default_config = Inr r"
    by blast
  from flat_backtest [OF flat, of macd_params default_config r] r cap
  have "r_trades r = [] \<and> total_trades r = 0 \<and> final_value r = 10000" by simp
  with flat ne r show ?thesis by blast
qed

subsection \<open>The equity curve\<close>

lemma run_bars_history_grows:
  "run_bars df st ps z c is s = Inr s' \<Longrightarrow>
     \<exists>ext. portfolio_history s' = portfolio_history s @ ext \<and> length ext = length is"
proof (induction "is" arbitrary: s)
  case Nil
  then show ?case by simp
next
  case (Cons i "is")
  from Cons.prems obtain sg s1 where
    st: "bar_step z c sg i (df ! i) s = Inr s1" and
    rest: "run_bars df st ps z c is s1 = Inr s'"
    by (auto split: sum.splits)
  from Cons.IH [OF rest] obtain ext where
    "portfolio_history s' = portfolio_history s1 @ ext" "length ext = length is" by blast
  with bar_step_history [OF st] show ?case by simp
qed

text \<open>
  Claim C2. In every backtest run that returns, for every bar index \<open>i \<ge> 1\<close> the
  equity-curve entry of bar \<open>i\<close> holds cash + shares held \<times> close(i), evaluated on the
  state reached after bars \<open>1 .. i - 1\<close>, that is before the signal of bar \<open>i\<close> is
  acted on; and the final value is cash + shares held \<times> the last close, on the state
  after the last bar.
\<close>

theorem equity_curve_marks_state:
  assumes run: "run_backtest df params config = Inr r"
  shows "(1 \<le> i \<and> i < length df \<longrightarrow>
           (\<exists>s. run_bars df (get_or (sp_type params) ''ma_crossover'') params
                  (get_or (position_size config) 1) (get_or (commission config) 1)
                  [1..<i] (initial_state (get_or (initial_capital config) 10000)) = Inr s \<and>
                r_portfolio_history r ! (i - 1) =
                  \<lparr>h_date = i, h_value = cash s + of_int (shares s) * df ! i,
                    h_cash = cash s, h_shares = shares s, h_price = df ! i\<rparr>)) \<and>
         (\<exists>s. run_bars df (get_or (sp_type params) ''ma_crossover'') params
                  (get_or (position_size config) 1) (get_or (commission config) 1)
                  [1..<length df] (initial_state (get_or (initial_capital config) 10000)) = Inr s \<and>
              final_value r = cash s + of_int (shares s) * last df) \<and>
         length (r_portfolio_history r) = length df - 1"
proof -
  let ?st = "get_or (sp_type params) ''ma_crossover''"
  let ?z = "get_or (position_size config) 1"
  let ?c = "get_or (commission config) 1"
  let ?init = "initial_state (get_or (initial_capital config) 10000)"
  from run obtain sF where
    bars: "run_bars df ?st params ?z ?c [1..<length df] ?init = Inr sF"
    and r: "r = calculate_backtest_metrics (get_or (initial_capital config) 10000)
                  (cash sF + of_int (shares sF) * last df) (trades sF) (portfolio_history sF)"
    by (rule run_backtest_Inr)
  have fin: "final_value r = cash sF + of_int (shares sF) * last df"
    by (simp add: r metrics_final_value)
  have hist: "r_portfolio_history r = portfolio_history sF" by (simp add: r metrics_history)
  from run_bars_history_grows [OF bars] have len: "length (r_portfolio_history r) = length df - 1"
    by (auto simp: hist initial_state_def)
  have bar: "\<exists>s. run_bars df ?st params ?z ?c [1..<i] ?init = Inr s \<and>
                r_portfolio_history r ! (i - 1) =
                  \<lparr>h_date = i, h_value = cash s + of_int (shares s) * df ! i,
                    h_cash = cash s, h_shares = shares s, h_price = df ! i\<rparr>"
    if i: "1 \<le> i" "i < length df"
  proof -
    from i have split: "[1..<length df] = [1..<i] @ i # [Suc i..<length df]"
      by (metis le_eq_less_or_eq less_imp_le_nat upt_add_eq_append upt_conv_Cons
          le_add_diff_inverse)
    from bars obtain s1 where
      pre: "run_bars df ?st params ?z ?c [1..<i] ?init = Inr s1" and
      post: "run_bars df ?st params ?z ?c (i # [Suc i..<length df]) s1 = Inr sF"
      unfolding split run_bars_append by (auto split: sum.splits)
    from post obtain sg s2 where
      st: "bar_step ?z ?c sg i (df ! i) s1 = Inr s2" and
      rest: "run_bars df ?st params ?z ?c [Suc i..<length df] s2 = Inr sF"
      by (auto split: sum.splits)
    from run_bars_history_grows [OF pre] have l1: "length (portfolio_history s1) = i - 1"
      by (auto simp: initial_state_def)
    from run_bars_history_grows [OF rest] obtain ext where
      "portfolio_history sF = portfolio_history s2 @ ext" by blast
    with bar_step_history [OF st] l1
    have "portfolio_history sF ! (i - 1) =
            \<lparr>h_date = i, h_value = cash s1 + of_int (shares s1) * df ! i,
              h_cash = cash s1, h_shares = shares s1, h_price = df ! i\<rparr>"
      by (simp add: nth_append)
    with pre hist show ?thesis by auto
  qed
  from bar bars fin len show ?thesis by blast
qed


lemma falling50_before_49:
  "map_sum id (\<lambda>s. (cash s, shares s))
     (run_bars falling50 ''rsi'' rsi_params 1 1 [1..<49] (initial_state 10000)) =
   Inr (10000, 0)"
  by code_simp

lemma falling50_nth: "falling50 ! 49 = 1" "last falling50 = 1" "length falling50 = 50"
  by (simp_all add: falling50_def last_map last_rev rev_nth)

theorem equity_curve_marks_state_witness:
  "\<exists>r. run_backtest falling50 rsi_params default_config = Inr r \<and>
       (1::nat) \<le> 49 \<and> 49 < length falling50 \<and>
       r_portfolio_history r ! 48 =
         \<lparr>h_date = 49, h_value = 10000, h_cash = 10000, h_shares = 0, h_price = 1\<rparr> \<and>
       final_value r = 9999 \<and> length (r_portfolio_history r) = 49"
proof -
  from falling50_run obtain r where
    r: "run_backtest falling50 rsi_params default_config = Inr r" by blast
  have g: "get_or (sp_type rsi_params) ''ma_crossover'' = ''rsi''"
    "get_or (position_size default_config) 1 = 1"
    "get_or (commission default_config) 1 = 1"
    "get_or (initial_capital default_config) 10000 = 10000"
    by (simp_all add: get_or_def rsi_params_def default_config_def)
  note inst = equity_curve_marks_state [OF r, of 49, unfolded g falling50_nth]
  from inst obtain s where
    s: "run_bars falling50 ''rsi'' rsi_params 1 1 [1..<49] (initial_state 10000) = Inr s"
    and e: "r_portfolio_history r ! (49 - 1) =
              \<lparr>h_date = 49, h_value = cash s + of_int (shares s) * 1,
                h_cash = cash s, h_shares = shares s, h_price = 1\<rparr>"
    by auto
  from s falling50_before_49 have "cash s = 10000" "shares s = 0" by auto
  with e have entry: "r_portfolio_history r ! 48 =
         \<lparr>h_date = 49, h_value = 10000, h_cash = 10000, h_shares = 0, h_price = 1\<rparr>"
    by simp
  from inst obtain sF where
    sF: "run_bars falling50 ''rsi'' rsi_params 1 1 [1..<50] (initial_state 10000) = Inr sF"
    and f: "final_value r = cash sF + of_int (shares sF) * 1"
    by auto
  from sF falling50_bars have "cash sF = - 1" "shares sF = 10000" by auto
  with f have fin: "final_value r = 9999" by simp
  from inst have len: "length (r_portfolio_history r) = 49" by simp
  from r entry fin len show ?thesis by (auto simp: falling50_nth)
qed

subsection \<open>One golden cross, one death cross\<close>
















subsection \<open>Determinism\<close>








section \<open>Properties of the position sizer\<close>







section \<open>Properties of the stop-loss validation\<close>





section \<open>Properties of the signal generator\<close>


lemma and_then_simps [simp]: "and_then (Inr v) f = f v" "and_then (Inl e) f = Inl e"
  by (simp_all add: and_then_def)



































section \<open>Properties of the Sharpe ratio\<close>

text \<open>
  A standard deviation of 0 gives a Sharpe ratio of 0, in the risk analyzer and in the
  backtest report.
\<close>

lemma sharpe_zero_std:
  "pd_std (dropna (pct_change_series closes)) = Fin 0 \<Longrightarrow>
   calculate_sharpe_ratio closes rf = Fin 0"
  by (simp add: calculate_sharpe_ratio_def Let_def)

lemma backtest_sharpe_zero_std:
  "np_std (history_returns ph) = Fin 0 \<Longrightarrow>
   sharpe_ratio (calculate_backtest_metrics capital final trs ph) = Fin 0"
  by (simp add: calculate_backtest_metrics_def Let_def xgt_def)

text \<open>
  Claim C8. The claim holds for the two zero-deviation cases above, and the backtest
  report's Sharpe ratio is always finite (\<open>backtest_sharpe_finite\<close> below). The risk
  analyzer breaks its last part: on a frame of two bars there is one return, its sample
  deviation is NaN, the guard \<open>volatility != 0\<close> lets NaN through, and the ratio
  returned is NaN.
\<close>

theorem sharpe_two_bars: "calculate_sharpe_ratio [100, 110] 0.02 = NaN"
  by (simp add: calculate_sharpe_ratio_def pct_change_series_def dropna_def pd_mean_def
      pd_std_def xsub_def Let_def)

lemma sharpe_flat: "calculate_sharpe_ratio [100, 100, 100] 0.02 = Fin 0"
  by (simp add: calculate_sharpe_ratio_def pct_change_series_def dropna_def pd_mean_def
      pd_std_def xsub_def Let_def)


lemma xadd_Fin: "xadd a b = Fin v \<Longrightarrow> \<exists>x y. a = Fin x \<and> b = Fin y \<and> v = x + y"
  by (cases a; cases b) auto

lemma xadd_NaN [simp]: "xadd a NaN = NaN" "xadd NaN a = NaN"
  by (cases a; simp)+

lemma xadd_PInf: "xadd a b = PInf \<Longrightarrow> a = PInf \<or> b = PInf"
  by (cases a; cases b) auto

lemma xadd_MInf: "xadd a b = MInf \<Longrightarrow> a = MInf \<or> b = MInf"
  by (cases a; cases b) auto

lemma foldl_xadd_Fin:
  "foldl xadd a xs = Fin v \<Longrightarrow> (\<exists>r. a = Fin r) \<and> (\<forall>x\<in>set xs. \<exists>r. x = Fin r)"
proof (induction xs arbitrary: a)
  case Nil
  then show ?case by simp
next
  case (Cons x xs)
  from Cons.prems have "foldl xadd (xadd a x) xs = Fin v" by simp
  from Cons.IH [OF this] obtain r where "xadd a x = Fin r" and
    rest: "\<forall>y\<in>set xs. \<exists>r. y = Fin r" by blast
  from xadd_Fin [OF this(1)] rest show ?case by auto
qed

lemma foldl_xadd_all_Fin:
  "\<forall>x\<in>set xs. \<exists>r. x = Fin r \<Longrightarrow> \<exists>v. foldl xadd (Fin a) xs = Fin v"
  by (induction xs arbitrary: a) auto

lemma foldl_xadd_NaN_start: "foldl xadd NaN xs = NaN"
  by (induction xs) auto

lemma foldl_xadd_NaN: "NaN \<in> set xs \<Longrightarrow> foldl xadd a xs = NaN"
  by (induction xs arbitrary: a) (auto simp: foldl_xadd_NaN_start)

lemma foldl_xadd_PInf: "foldl xadd a xs = PInf \<Longrightarrow> a = PInf \<or> PInf \<in> set xs"
proof (induction xs arbitrary: a)
  case Nil
  then show ?case by simp
next
  case (Cons x xs)
  from Cons.prems have "foldl xadd (xadd a x) xs = PInf" by simp
  from Cons.IH [OF this] show ?case by (auto dest: xadd_PInf)
qed

lemma foldl_xadd_MInf: "foldl xadd a xs = MInf \<Longrightarrow> a = MInf \<or> MInf \<in> set xs"
proof (induction xs arbitrary: a)
  case Nil
  then show ?case by simp
next
  case (Cons x xs)
  from Cons.prems have "foldl xadd (xadd a x) xs = MInf" by simp
  from Cons.IH [OF this] show ?case by (auto dest: xadd_MInf)
qed

lemma xdiv_by_count:
  "0 < n \<Longrightarrow> xdiv s (Fin (real n)) = (case s of Fin a \<Rightarrow> Fin (a / real n) | other \<Rightarrow> other)"
  by (cases s) auto

text \<open>
  The standard deviation numpy returns is a finite number or NaN, and it is finite
  only when the mean is.
\<close>

lemma np_std_cases:
  assumes "rs \<noteq> []"
  shows "np_std rs = NaN \<or> (\<exists>s m. np_std rs = Fin s \<and> 0 \<le> s \<and> np_mean rs = Fin m)"
proof -
  let ?n = "length rs"
  let ?S = "foldl xadd (Fin 0) rs"
  let ?m = "np_mean rs"
  let ?sq = "map (\<lambda>x. xmul (xsub x ?m) (xsub x ?m)) rs"
  from assms have n: "0 < ?n" by simp
  have m: "?m = (case ?S of Fin a \<Rightarrow> Fin (a / real ?n) | other \<Rightarrow> other)"
    unfolding np_mean_def by (rule xdiv_by_count [OF n])
  have sd: "np_std rs = xsqrt (case foldl xadd (Fin 0) ?sq of
                Fin a \<Rightarrow> Fin (a / real ?n) | other \<Rightarrow> other)"
    unfolding np_std_def Let_def np_mean_def [of ?sq] using xdiv_by_count [OF n] by simp
  show ?thesis
  proof (cases ?S)
    case (Fin a)
    from foldl_xadd_Fin [OF Fin] have all: "\<forall>x\<in>set rs. \<exists>r. x = Fin r" by blast
    from Fin m obtain mv where mv: "?m = Fin mv" by simp
    from all have "\<forall>y\<in>set ?sq. \<exists>r. y = Fin r \<and> 0 \<le> r"
      by (auto simp: mv xsub_def)
    then have "\<exists>v. foldl xadd (Fin 0) ?sq = Fin v \<and> 0 \<le> v"
    proof -
      have "\<forall>y\<in>set ys. \<exists>r. y = Fin r \<and> 0 \<le> r \<Longrightarrow> 0 \<le> b \<Longrightarrow>
              \<exists>v. foldl xadd (Fin b) ys = Fin v \<and> 0 \<le> v" for ys b
      proof (induction ys arbitrary: b)
        case Nil
        then show ?case by simp
      next
        case (Cons y ys)
        then obtain r where "y = Fin r" "0 \<le> r" by auto
        with Cons show ?case by simp
      qed
      from this [of ?sq 0] \<open>\<forall>y\<in>set ?sq. \<exists>r. y = Fin r \<and> 0 \<le> r\<close> show ?thesis by simp
    qed
    then obtain v where v: "foldl xadd (Fin 0) ?sq = Fin v" "0 \<le> v" by blast
    with sd n have "np_std rs = Fin (sqrt (v / real ?n))" by simp
    with mv v show ?thesis by auto
  next
    case NaN
    with m have "?m = NaN" by simp
    with assms have "NaN \<in> set ?sq" by (cases rs) (auto simp: xsub_def)
    from foldl_xadd_NaN [OF this] sd show ?thesis by simp
  next
    case PInf
    with m have mp: "?m = PInf" by simp
    from foldl_xadd_PInf [OF PInf] have "PInf \<in> set rs" by simp
    then have "xmul (xsub PInf ?m) (xsub PInf ?m) \<in> set ?sq" unfolding set_map by (rule imageI)
    then have "NaN \<in> set ?sq" by (simp add: mp xsub_def)
    from foldl_xadd_NaN [OF this] sd show ?thesis by simp
  next
    case MInf
    with m have mp: "?m = MInf" by simp
    from foldl_xadd_MInf [OF MInf] have "MInf \<in> set rs" by simp
    then have "xmul (xsub MInf ?m) (xsub MInf ?m) \<in> set ?sq" unfolding set_map by (rule imageI)
    then have "NaN \<in> set ?sq" by (simp add: mp xsub_def)
    from foldl_xadd_NaN [OF this] sd show ?thesis by simp
  qed
qed

lemma backtest_sharpe_finite:
  "\<exists>v. sharpe_ratio (calculate_backtest_metrics capital final trs ph) = Fin v"
proof (cases "ph \<noteq> [] \<and> history_returns ph \<noteq> []")
  case False
  then show ?thesis by (auto simp: calculate_backtest_metrics_def Let_def)
next
  case True
  then have ne: "history_returns ph \<noteq> []" by simp
  from np_std_cases [OF ne] show ?thesis
  proof
    assume "np_std (history_returns ph) = NaN"
    with True show ?thesis by (simp add: calculate_backtest_metrics_def Let_def xgt_def)
  next
    assume "\<exists>s m. np_std (history_returns ph) = Fin s \<and> 0 \<le> s \<and>
              np_mean (history_returns ph) = Fin m"
    then obtain s m where "np_std (history_returns ph) = Fin s"
      "np_mean (history_returns ph) = Fin m" by blast
    with True show ?thesis by (simp add: calculate_backtest_metrics_def Let_def xgt_def)
  qed
qed

end
